theory Spec2Isabelle
  imports Main "HOL-Library.Sublist"
begin

section \<open>The CloudFormation stack helpers of cf-utils\<close>

text \<open>
  The embedded code is the async generation of \<open>cloudFormation.js\<close> (the third part of
  \<open>src/src/parameterStore.js\<close>, lines 183 to 654): \<open>upsertStack\<close>, \<open>createStack\<close>,
  \<open>updateStack\<close>, \<open>applyChangeSet\<close>, \<open>createChangeSet\<close>, \<open>executeChangeSet\<close>,
  \<open>deleteChangeSet\<close>, \<open>deleteStack\<close>, \<open>pollStack\<close> and \<open>pollChangeSet\<close>.

  Every function is a state transformer over a run state: the state of the outside world
  (CloudFormation, S3, the file system, the operator at the prompt, the clock), of an
  arbitrary type \<open>'w\<close>, and the trace of everything the code has done to it so far, in
  order. The outside world is a parameter, a record of handlers (\<open>provider\<close>), so a theorem
  about all providers is a theorem about every behaviour of the remote API.
  A rejected promise or a \<open>throw\<close> is the result \<open>Throw\<close>; \<open>return;\<close> is
  \<open>Return None\<close>. The two pollers recurse once per describe call and have no bound in
  the source; here they take fuel, the number of describe calls they may make, and
  answer \<open>Pending\<close> with the state reached when it is used up.
\<close>

subsection \<open>Values\<close>

text \<open>A JavaScript \<open>Error\<close>: its \<open>name\<close> and its \<open>message\<close>.\<close>

record js_error =
  ename :: string
  message :: string

definition Error :: "string \<Rightarrow> js_error" where
  "Error msg = \<lparr>ename = ''Error'', message = msg\<rparr>"

text \<open>
  What V8 throws on reading a property of \<open>undefined\<close>
  (\<open>data.Stacks[0].StackStatus\<close> when \<open>Stacks\<close> is empty, \<open>cs.StatusReason.indexOf\<close>
  when the change set has no reason).
\<close>

definition TypeError :: "string \<Rightarrow> js_error" where
  "TypeError prop =
     \<lparr>ename = ''TypeError'',
      message = ''Cannot read properties of undefined (reading '' @ [CHR 0x27] @ prop @ [CHR 0x27] @ '')''\<rparr>"

text \<open>\<open>Error.prototype.toString\<close>.\<close>

definition toString :: "js_error \<Rightarrow> string" where
  "toString err =
     (if ename err = [] then message err
      else if message err = [] then ename err
      else ename err @ '': '' @ message err)"

text \<open>\<open>s.indexOf(sub) >= 0\<close> and \<open>s.includes(sub)\<close>: \<open>sub\<close> occurs in \<open>s\<close>.\<close>

fun includes_str :: "string \<Rightarrow> string \<Rightarrow> bool" where
  "includes_str [] sub = (sub = [])"
| "includes_str (c # cs) sub = (prefix sub (c # cs) \<or> includes_str cs sub)"

text \<open>
  The parameters object of the AWS commands. A key the code never sets is \<open>None\<close>;
  \<open>delete params.DisableRollback\<close> sets it back to \<open>None\<close>.
\<close>

record params =
  StackName :: string
  Capabilities :: "string list option"
  Parameters :: "(string \<times> string) list option"
  TemplateURL :: "string option"
  TemplateBody :: "string option"
  DisableRollback :: "bool option"
  ChangeSetName :: "string option"
  ChangeSetType :: "string option"

record stack_output =
  OutputKey :: string
  OutputValue :: string

text \<open>One entry of \<open>data.Stacks\<close> in the answer to DescribeStacks.\<close>

record stack =
  Stack_Name :: string
  StackStatus :: string
  Outputs :: "stack_output list option"

record stacks_data =
  Stacks :: "stack list"

text \<open>The answer to DescribeChangeSet.\<close>

record changeset =
  cs_ChangeSetName :: string
  cs_StackName :: string
  Status :: string
  StatusReason :: "string option"

subsection \<open>The outside world and the trace\<close>

datatype command =
    DescribeStacksCommand string
  | CreateStackCommand params
  | UpdateStackCommand params
  | CreateChangeSetCommand params
  | ExecuteChangeSetCommand params
  | DeleteChangeSetCommand params
  | DescribeChangeSetCommand "string option" string
  | DeleteStackCommand params

text \<open>What \<open>config.logger\<close> is given.\<close>

datatype log_payload =
    Msg string
  | MsgArg string string
  | ChangeSetLog changeset
  | StackDetails stacks_data

text \<open>
  The trace: a command sent with \<open>cf.send\<close> and the error it was rejected with, if any;
  a call of \<open>s3.emptyBucket\<close> or \<open>s3.putS3Object\<close> and its error, if any; the prompt and
  its answer; a \<open>setTimeout\<close> wait; a log line.
\<close>

datatype event =
    Sent command "js_error option"
  | EmptyBucket string "js_error option"
  | PutS3Object string string string "js_error option"
  | Prompt "js_error + bool"
  | Sleep nat
  | LogInfo log_payload
  | LogWarn log_payload

record 'w provider =
  describeStacks :: "string \<Rightarrow> 'w \<Rightarrow> (js_error + stacks_data) \<times> 'w"
  describeChangeSet :: "string option \<Rightarrow> string \<Rightarrow> 'w \<Rightarrow> (js_error + changeset) \<times> 'w"
  submit :: "command \<Rightarrow> 'w \<Rightarrow> js_error option \<times> 'w"
  s3_emptyBucket :: "string \<Rightarrow> 'w \<Rightarrow> js_error option \<times> 'w"
  s3_putS3Object :: "string \<Rightarrow> string \<Rightarrow> string \<Rightarrow> 'w \<Rightarrow> js_error option \<times> 'w"
  inquirer_prompt :: "'w \<Rightarrow> (js_error + bool) \<times> 'w"
  readFileSync :: "string \<Rightarrow> 'w \<Rightarrow> js_error + string"
  existsSync :: "string \<Rightarrow> 'w \<Rightarrow> bool"
  Date_now :: "'w \<Rightarrow> nat"

record 'w run =
  world :: 'w
  trace :: "event list"

datatype 'a result = Return 'a | Throw js_error | Pending

definition failure :: "js_error + 'a \<Rightarrow> js_error option" where
  "failure r = (case r of Inl err \<Rightarrow> Some err | Inr _ \<Rightarrow> None)"

definition emit :: "event \<Rightarrow> 'w run \<Rightarrow> 'w run" where
  "emit e s = s\<lparr>trace := trace s @ [e]\<rparr>"

text \<open>\<open>await cf.send(new DescribeStacksCommand({ StackName: name }))\<close>.\<close>

definition sendDescribeStacks ::
  "'w provider \<Rightarrow> string \<Rightarrow> 'w run \<Rightarrow> (js_error + stacks_data) \<times> 'w run" where
  "sendDescribeStacks P nm s =
     (case describeStacks P nm (world s) of
        (r, w') \<Rightarrow> (r, \<lparr>world = w', trace = trace s @ [Sent (DescribeStacksCommand nm) (failure r)]\<rparr>))"

text \<open>\<open>await cf.send(new DescribeChangeSetCommand({ ChangeSetName: .., StackName: .. }))\<close>.\<close>

definition sendDescribeChangeSet ::
  "'w provider \<Rightarrow> string option \<Rightarrow> string \<Rightarrow> 'w run \<Rightarrow> (js_error + changeset) \<times> 'w run" where
  "sendDescribeChangeSet P csn nm s =
     (case describeChangeSet P csn nm (world s) of
        (r, w') \<Rightarrow> (r, \<lparr>world = w', trace = trace s @ [Sent (DescribeChangeSetCommand csn nm) (failure r)]\<rparr>))"

text \<open>\<open>await cf.send(c)\<close> for a command whose answer the code does not read.\<close>

definition send :: "'w provider \<Rightarrow> command \<Rightarrow> 'w run \<Rightarrow> js_error option \<times> 'w run" where
  "send P c s =
     (case submit P c (world s) of
        (r, w') \<Rightarrow> (r, \<lparr>world = w', trace = trace s @ [Sent c r]\<rparr>))"

subsection \<open>The pollers\<close>

definition POLL_TIMEOUT :: nat where
  "POLL_TIMEOUT = 5000"

text \<open>
  \<open>pollStack\<close> (source lines 556 to 590). The \<open>switch\<close> has two groups of cases and no
  default; a status in neither group falls out of it, to the log line, the wait and the
  recursive call.
\<close>

fun pollStack ::
  "'w provider \<Rightarrow> nat \<Rightarrow> params \<Rightarrow> 'w run \<Rightarrow> stacks_data option result \<times> 'w run" where
  "pollStack P 0 ps s = (Pending, s)"
| "pollStack P (Suc n) ps s =
     (case sendDescribeStacks P (StackName ps) s of
        (Inl err, s1) \<Rightarrow>
          if includes_str (message err) ''does not exist''
          then (Return None, emit (LogInfo (Msg ''Stack deleted or never existed.'')) s1)
          else (Throw err, s1)
      | (Inr data, s1) \<Rightarrow>
          (case Stacks data of
             [] \<Rightarrow> (Throw (TypeError ''StackStatus''), s1)
           | stk # _ \<Rightarrow>
               if StackStatus stk \<in> set [''CREATE_COMPLETE'', ''UPDATE_COMPLETE'']
               then (Return (Some data), emit (LogInfo (Msg ''Stack operation completed'')) s1)
               else if StackStatus stk \<in> set [''ROLLBACK_COMPLETE'', ''CREATE_FAILED'',
                         ''UPDATE_FAILED'', ''DELETE_FAILED'', ''UPDATE_ROLLBACK_COMPLETE'']
               then (Throw (Error ''Stack operation failed''), emit (LogWarn (StackDetails data)) s1)
               else pollStack P n ps
                      (emit (Sleep POLL_TIMEOUT)
                        (emit (LogInfo (Msg (''Waiting for stack operation to complete. This may take some time - ''
                                              @ StackStatus stk))) s1))))"

text \<open>
  \<open>pollChangeSet\<close> (source lines 598 to 638). \<open>CREATE_COMPLETE\<close> logs and falls through
  to the \<open>return cs\<close> of \<open>UPDATE_COMPLETE\<close> and \<open>DELETE_COMPLETE\<close>.
\<close>

fun pollChangeSet ::
  "'w provider \<Rightarrow> nat \<Rightarrow> params \<Rightarrow> 'w run \<Rightarrow> changeset option result \<times> 'w run" where
  "pollChangeSet P 0 ps s = (Pending, s)"
| "pollChangeSet P (Suc n) ps s =
     (case sendDescribeChangeSet P (ChangeSetName ps) (StackName ps) s of
        (Inl err, s1) \<Rightarrow>
          if includes_str (message err) ''does not exist''
          then (Return None, emit (LogInfo (Msg ''Change set deleted or never existed.'')) s1)
          else (Throw err, s1)
      | (Inr cs, s1) \<Rightarrow>
          if Status cs = ''CREATE_COMPLETE''
          then (Return (Some cs), emit (LogInfo (Msg ''Change set created'')) s1)
          else if Status cs \<in> set [''UPDATE_COMPLETE'', ''DELETE_COMPLETE'']
          then (Return (Some cs), s1)
          else if Status cs = ''FAILED''
          then (case StatusReason cs of
                  None \<Rightarrow> (Throw (TypeError ''indexOf''), s1)
                | Some reason \<Rightarrow>
                    if includes_str reason ''No updates are to be performed''
                       \<or> includes_str reason ''didn't contain changes''
                    then (Return None, emit (LogInfo (Msg ''No updates are to be performed'')) s1)
                    else (Throw (Error ''Changeset creation failed''), emit (LogWarn (ChangeSetLog cs)) s1))
          else pollChangeSet P n ps
                 (emit (Sleep POLL_TIMEOUT)
                   (emit (LogInfo (Msg (''Waiting for change set to be created - '' @ Status cs))) s1)))"

subsection \<open>Creating, updating and change sets\<close>

text \<open>
  \<open>createStack\<close> (source lines 344 to 349). The assignment
  \<open>params.DisableRollback = true\<close> is made on the caller's object; no caller in this file
  reads the object again afterwards.
\<close>

definition createStack ::
  "'w provider \<Rightarrow> nat \<Rightarrow> params \<Rightarrow> 'w run \<Rightarrow> stacks_data option result \<times> 'w run" where
  "createStack P n ps s =
     (let ps' = ps\<lparr>DisableRollback := Some True\<rparr> in
      case send P (CreateStackCommand ps') s of
        (Some err, s1) \<Rightarrow> (Throw err, s1)
      | (None, s1) \<Rightarrow> pollStack P n ps' s1)"

text \<open>\<open>updateStack\<close> (source lines 356 to 368).\<close>

definition updateStack ::
  "'w provider \<Rightarrow> nat \<Rightarrow> params \<Rightarrow> 'w run \<Rightarrow> stacks_data option result \<times> 'w run" where
  "updateStack P n ps s =
     (case send P (UpdateStackCommand ps) s of
        (Some err, s1) \<Rightarrow>
          if includes_str (toString err) ''No updates are to be performed''
          then pollStack P n ps (emit (LogInfo (Msg ''There are no changes to apply, continuing....'')) s1)
          else (Throw err, s1)
      | (None, s1) \<Rightarrow> pollStack P n ps s1)"

text \<open>
  \<open>generateChangeSetName\<close> (source lines 375 to 377):
  \<open>'cf-utils-cloudformation-upsert-stack-' + (Date.now() / 1000 | 0)\<close>. The clock is a
  number of milliseconds since the epoch; \<open>| 0\<close> is ToInt32, which wraps at \<open>2 ^ 31\<close>
  seconds.
\<close>

definition toInt32 :: "int \<Rightarrow> int" where
  "toInt32 v = (v + 2 ^ 31) mod 2 ^ 32 - 2 ^ 31"

function showNat :: "nat \<Rightarrow> string" where
  "showNat k = (if k < 10 then [''0123456789'' ! k] else showNat (k div 10) @ [''0123456789'' ! (k mod 10)])"
  by pat_completeness auto
termination
  by (relation "measure (\<lambda>k. k)") auto

declare showNat.simps [simp del]

definition showInt :: "int \<Rightarrow> string" where
  "showInt i = (if i < 0 then ''-'' @ showNat (nat (- i)) else showNat (nat i))"

definition generateChangeSetName :: "nat \<Rightarrow> string" where
  "generateChangeSetName now_ms =
     ''cf-utils-cloudformation-upsert-stack-'' @ showInt (toInt32 (int (now_ms div 1000)))"




text \<open>The object literals \<open>{ StackName: .. }\<close> and \<open>{ StackName: .., ChangeSetName: .. }\<close>.\<close>

definition stackParams :: "string \<Rightarrow> params" where
  "stackParams nm =
     \<lparr>StackName = nm, Capabilities = None, Parameters = None, TemplateURL = None,
      TemplateBody = None, DisableRollback = None, ChangeSetName = None, ChangeSetType = None\<rparr>"

definition changeSetParams :: "string \<Rightarrow> string \<Rightarrow> params" where
  "changeSetParams nm csn = (stackParams nm)\<lparr>ChangeSetName := Some csn\<rparr>"


subsection \<open>Deleting a stack\<close>

text \<open>
  The loop of \<open>deleteStack\<close> over \<open>data.Stacks[0].Outputs\<close> (source lines 520 to 530):
  the values of the outputs whose key passes \<open>/.*Bucket$/.test\<close>. The pattern is not
  anchored at its start and \<open>$\<close> (no \<open>m\<close> flag) is the end of the key, so it tests
  that the key ends with \<open>Bucket\<close>.
\<close>

fun s3Operations :: "stack_output list \<Rightarrow> string list" where
  "s3Operations [] = []"
| "s3Operations (out # outs) =
     (if suffix ''Bucket'' (OutputKey out) then OutputValue out # s3Operations outs
      else s3Operations outs)"

text \<open>
  The promises pushed by the loop and \<open>await Promise.all(s3Operations)\<close>. Each promise's
  executor runs at once, so every \<open>s3.emptyBucket\<close> is called, in the order of the
  outputs, whether or not an earlier one fails; \<open>Promise.all\<close> rejects if one of them
  does. The calls overlap in time in the source; here each is one step, in call order,
  and the error is that of the first failing call in that order.
\<close>

fun emptyBuckets :: "'w provider \<Rightarrow> string list \<Rightarrow> 'w run \<Rightarrow> js_error option \<times> 'w run" where
  "emptyBuckets P [] s = (None, s)"
| "emptyBuckets P (b # bs) s =
     (case s3_emptyBucket P b (world s) of
        (r, w') \<Rightarrow>
          (case emptyBuckets P bs
                  \<lparr>world = w', trace = trace s @ [LogInfo (MsgArg ''Emptying S3 bucket'' b), EmptyBucket b r]\<rparr> of
             (r', s') \<Rightarrow> (case r of Some err \<Rightarrow> Some err | None \<Rightarrow> r', s')))"

text \<open>\<open>deleteStack\<close> (source lines 501 to 538).\<close>

definition deleteStack ::
  "'w provider \<Rightarrow> nat \<Rightarrow> string \<Rightarrow> 'w run \<Rightarrow> stacks_data option result \<times> 'w run" where
  "deleteStack P n nm s =
     (let ps = stackParams nm in
      case sendDescribeStacks P nm s of
        (Inl err, s1) \<Rightarrow>
          if includes_str (message err) ''does not exist''
          then (Return None, emit (LogInfo (Msg ''Stack already deleted or never existed.'')) s1)
          else (Throw err, s1)
      | (Inr data, s1) \<Rightarrow>
          (case Stacks data of
             [] \<Rightarrow> (Throw (TypeError ''Outputs''), s1)
           | stk # _ \<Rightarrow>
               (case emptyBuckets P (case Outputs stk of None \<Rightarrow> [] | Some outs \<Rightarrow> s3Operations outs) s1 of
                  (Some err, s2) \<Rightarrow> (Throw err, s2)
                | (None, s2) \<Rightarrow>
                    (case send P (DeleteStackCommand ps) s2 of
                       (Some err, s3) \<Rightarrow> (Throw err, s3)
                     | (None, s3) \<Rightarrow> pollStack P n ps s3))))"

subsection \<open>Upserting a stack\<close>

text \<open>
  The \<open>options\<close> argument of \<open>upsertStack\<close>: a boolean (the old \<open>review\<close> flag), an
  object, or nothing. A key that is absent from the object is \<open>None\<close>.
\<close>

record options =
  review :: "bool option"
  containsTransforms :: "bool option"
  s3Bucket :: "string option"
  s3Prefix :: "string option"



text \<open>
  \<open>/Transform\"?\s*:\s*\"?AWS::Serverless/.test(body)\<close>. Each quantifier of the pattern
  is followed by something it cannot itself match, so the greedy choice is the only one
  and the match at a position is a function. A string is its sequence of UTF-16 code
  units, of which \<open>char\<close> has those below 256; among them \<open>\s\<close> matches TAB, LF, VT, FF,
  CR, SPACE and NBSP.
\<close>

definition isSpace :: "char \<Rightarrow> bool" where
  "isSpace c = (c \<in> set [CHR 0x09, CHR 0x0A, CHR 0x0B, CHR 0x0C, CHR 0x0D, CHR 0x20, CHR 0xA0])"

definition optQuote :: "string \<Rightarrow> string" where
  "optQuote str = (case str of [] \<Rightarrow> [] | c # cs \<Rightarrow> if c = CHR 0x22 then cs else str)"

definition markerAt :: "string \<Rightarrow> bool" where
  "markerAt str =
     (prefix ''Transform'' str \<and>
      (case dropWhile isSpace (optQuote (drop 9 str)) of
         [] \<Rightarrow> False
       | c # rest \<Rightarrow> c = CHR '':'' \<and> prefix ''AWS::Serverless'' (optQuote (dropWhile isSpace rest))))"

fun transformMarker :: "string \<Rightarrow> bool" where
  "transformMarker [] = False"
| "transformMarker (c # cs) = (markerAt (c # cs) \<or> transformMarker cs)"







text \<open>
  \<open>csParams\<close> (source lines 306 to 309): the preview change set of the stack \<open>nm\<close>.
\<close>

definition previewParams :: "string \<Rightarrow> params" where
  "previewParams nm = changeSetParams nm (''cf-utils-'' @ nm @ ''-preview'')"





subsection \<open>Reading a trace\<close>

text \<open>What a call has added to the trace of the state it started from.\<close>

definition issued :: "'w run \<Rightarrow> 'a \<times> 'w run \<Rightarrow> event list" where
  "issued s out = drop (length (trace s)) (trace (snd out))"








text \<open>The two groups of statuses in the \<open>switch\<close> of \<open>pollStack\<close>.\<close>

definition stackSucceeded :: "string \<Rightarrow> bool" where
  "stackSucceeded st = (st \<in> set [''CREATE_COMPLETE'', ''UPDATE_COMPLETE''])"

definition stackFailed :: "string \<Rightarrow> bool" where
  "stackFailed st = (st \<in> set [''ROLLBACK_COMPLETE'', ''CREATE_FAILED'',
                         ''UPDATE_FAILED'', ''DELETE_FAILED'', ''UPDATE_ROLLBACK_COMPLETE''])"

text \<open>An event that needs no operator and touches no bucket: a command sent, a wait, a log line.\<close>

definition isAutomatic :: "event \<Rightarrow> bool" where
  "isAutomatic e =
     (case e of Sent c r \<Rightarrow> True | Sleep t \<Rightarrow> True | LogInfo l \<Rightarrow> True | LogWarn l \<Rightarrow> True | _ \<Rightarrow> False)"





text \<open>The DeleteChangeSet with the parameters \<open>ps\<close>.\<close>

definition isDeleteChangeSet :: "params \<Rightarrow> event \<Rightarrow> bool" where
  "isDeleteChangeSet ps e = (case e of Sent c r \<Rightarrow> c = DeleteChangeSetCommand ps | _ \<Rightarrow> False)"



text \<open>The question put to the operator.\<close>

definition isPrompt :: "event \<Rightarrow> bool" where
  "isPrompt e = (case e of Prompt a \<Rightarrow> True | _ \<Rightarrow> False)"

text \<open>A trace from its first prompt on.\<close>

definition afterPrompt :: "event list \<Rightarrow> event list" where
  "afterPrompt E = dropWhile (\<lambda>e. \<not> isPrompt e) E"

text \<open>
  If the operator was asked and has answered, whatever the answer, the two events after
  the prompt are the log line of the cleanup and the DeleteChangeSet of the preview
  change set.
\<close>

definition previewDeleted :: "string \<Rightarrow> event list \<Rightarrow> bool" where
  "previewDeleted nm E =
     (case afterPrompt E of
        [] \<Rightarrow> True
      | p # Post \<Rightarrow>
          (case p of
             Prompt answer \<Rightarrow>
               (case answer of
                  Inl err \<Rightarrow> True
                | Inr b \<Rightarrow>
                    (case Post of
                       l # d # E3 \<Rightarrow> l = LogInfo (Msg ''Cleaning up review change set....'')
                                     \<and> isDeleteChangeSet (previewParams nm) d
                     | _ \<Rightarrow> False))
           | _ \<Rightarrow> True))"




subsection \<open>A scripted provider\<close>

text \<open>
  The provider of the test suite's mocks: each describe answers with the next entry of
  a list and, once the list is used up, with the not-found error; the other handlers
  answer the same whatever the state.
\<close>

record mock_world =
  stackAnswers :: "(js_error + stacks_data) list"
  changeSetAnswers :: "(js_error + changeset) list"

definition scripted ::
  "(command \<Rightarrow> js_error option) \<Rightarrow> (string \<Rightarrow> js_error option) \<Rightarrow> (js_error + bool)
     \<Rightarrow> (string \<Rightarrow> string option) \<Rightarrow> mock_world provider" where
  "scripted rejects emptied answer files =
     \<lparr>describeStacks = (\<lambda>nm w. case stackAnswers w of
                                   [] \<Rightarrow> (Inl (Error (''Stack with id '' @ nm @ '' does not exist'')), w)
                                 | r # rs \<Rightarrow> (r, w\<lparr>stackAnswers := rs\<rparr>)),
      describeChangeSet = (\<lambda>csn nm w. case changeSetAnswers w of
                                   [] \<Rightarrow> (Inl (Error (''ChangeSet does not exist'')), w)
                                 | r # rs \<Rightarrow> (r, w\<lparr>changeSetAnswers := rs\<rparr>)),
      submit = (\<lambda>c w. (rejects c, w)),
      s3_emptyBucket = (\<lambda>b w. (emptied b, w)),
      s3_putS3Object = (\<lambda>bucket key path w. (None, w)),
      inquirer_prompt = (\<lambda>w. (answer, w)),
      readFileSync = (\<lambda>path w. case files path of
                                   None \<Rightarrow> Inl (Error (''ENOENT: no such file or directory, open '' @ path))
                                 | Some body \<Rightarrow> Inr body),
      existsSync = (\<lambda>path w. files path \<noteq> None),
      Date_now = (\<lambda>w. 1700000000000)\<rparr>"

text \<open>The provider that accepts every request, with an approving operator and no files.\<close>

definition agreeable :: "mock_world provider" where
  "agreeable = scripted (\<lambda>c. None) (\<lambda>b. None) (Inr True) (\<lambda>path. None)"

definition stackWith :: "string \<Rightarrow> string \<Rightarrow> stack_output list option \<Rightarrow> stacks_data" where
  "stackWith nm st outs = \<lparr>Stacks = [\<lparr>Stack_Name = nm, StackStatus = st, Outputs = outs\<rparr>]\<rparr>"

definition changeSetWith :: "string \<Rightarrow> string \<Rightarrow> string \<Rightarrow> string option \<Rightarrow> changeset" where
  "changeSetWith csn nm st reason =
     \<lparr>cs_ChangeSetName = csn, cs_StackName = nm, Status = st, StatusReason = reason\<rparr>"

definition start :: "(js_error + stacks_data) list \<Rightarrow> (js_error + changeset) list \<Rightarrow> mock_world run" where
  "start sa ca = \<lparr>world = \<lparr>stackAnswers = sa, changeSetAnswers = ca\<rparr>, trace = []\<rparr>"



section \<open>Properties\<close>

subsection \<open>Helper facts\<close>

lemmas mock_defs = scripted_def agreeable_def stackWith_def changeSetWith_def start_def
  stackParams_def changeSetParams_def sendDescribeStacks_def sendDescribeChangeSet_def send_def
  failure_def emit_def Error_def POLL_TIMEOUT_def

subsection \<open>The helpers mean what the JavaScript means\<close>

text \<open>\<open>includes_str\<close> is the substring test.\<close>

lemma includes_str_iff: "includes_str str sub \<longleftrightarrow> (\<exists>pre post. str = pre @ sub @ post)"
proof (induction str)
  case Nil
  then show ?case by auto
next
  case (Cons c cs)
  have "(\<exists>pre post. c # cs = pre @ sub @ post)
          \<longleftrightarrow> prefix sub (c # cs) \<or> (\<exists>pre post. cs = pre @ sub @ post)"
  proof
    assume "\<exists>pre post. c # cs = pre @ sub @ post"
    then obtain pre post where eq: "c # cs = pre @ sub @ post" by blast
    show "prefix sub (c # cs) \<or> (\<exists>pre post. cs = pre @ sub @ post)"
    proof (cases pre)
      case Nil
      with eq show ?thesis by (simp add: prefix_def)
    next
      case (Cons d pre')
      with eq have "cs = pre' @ sub @ post" by simp
      then show ?thesis by blast
    qed
  next
    assume "prefix sub (c # cs) \<or> (\<exists>pre post. cs = pre @ sub @ post)"
    then show "\<exists>pre post. c # cs = pre @ sub @ post"
    proof
      assume "prefix sub (c # cs)"
      then obtain post where "c # cs = sub @ post" by (auto simp: prefix_def)
      then have "c # cs = [] @ sub @ post" by simp
      then show ?thesis by blast
    next
      assume "\<exists>pre post. cs = pre @ sub @ post"
      then obtain pre post where "cs = pre @ sub @ post" by blast
      then have "c # cs = (c # pre) @ sub @ post" by simp
      then show ?thesis by blast
    qed
  qed
  with Cons.IH show ?case by simp
qed

text \<open>
  The matcher is the regular expression: \<open>markerAt\<close> holds of the strings that start
  with \<open>Transform\<close>, an optional quote, white space, a colon, white space, an optional
  quote and \<open>AWS::Serverless\<close>, and \<open>transformMarker\<close> of the strings with such a
  part.
\<close>

lemma optQuote_split: "\<exists>q. (q = [] \<or> q = [CHR 0x22]) \<and> str = q @ optQuote str"
  by (cases str) (auto simp: optQuote_def)

lemma optQuote_quoted: "optQuote (CHR 0x22 # str) = str"
  by (simp add: optQuote_def)

lemma optQuote_other: "c \<noteq> CHR 0x22 \<Longrightarrow> optQuote (c # str) = c # str"
  by (simp add: optQuote_def)

lemma isSpace_not_quote: "isSpace c \<Longrightarrow> c \<noteq> CHR 0x22"
  by (auto simp: isSpace_def)

lemma dropWhile_spaces: "list_all isSpace ws \<Longrightarrow> \<not> isSpace c \<Longrightarrow> dropWhile isSpace (ws @ c # str) = c # str"
  by (induction ws) simp_all

lemma spaces_split: "\<exists>ws. list_all isSpace ws \<and> str = ws @ dropWhile isSpace str"
proof -
  have "list_all isSpace (takeWhile isSpace str)"
    by (simp add: list_all_iff) (meson set_takeWhileD)
  moreover have "str = takeWhile isSpace str @ dropWhile isSpace str" by simp
  ultimately show ?thesis by blast
qed

lemma optQuote_spaces_colon:
  "list_all isSpace ws \<Longrightarrow> optQuote (ws @ CHR '':'' # str) = ws @ CHR '':'' # str"
  by (cases ws) (simp_all add: optQuote_other isSpace_not_quote)

lemma markerAt_iff:
  "markerAt str \<longleftrightarrow>
     (\<exists>q1 ws1 ws2 q2 post.
        str = ''Transform'' @ q1 @ ws1 @ '':'' @ ws2 @ q2 @ ''AWS::Serverless'' @ post
        \<and> (q1 = [] \<or> q1 = [CHR 0x22]) \<and> list_all isSpace ws1
        \<and> list_all isSpace ws2 \<and> (q2 = [] \<or> q2 = [CHR 0x22]))"
proof
  assume m: "markerAt str"
  then have p: "prefix ''Transform'' str" by (simp add: markerAt_def)
  then obtain r1 where str: "str = ''Transform'' @ r1" by (auto simp: prefix_def)
  then have d9: "drop 9 str = r1" by simp
  from optQuote_split [of r1] obtain q1 where q1: "q1 = [] \<or> q1 = [CHR 0x22]" and r1: "r1 = q1 @ optQuote r1"
    by blast
  from spaces_split [of "optQuote r1"] obtain ws1 where ws1: "list_all isSpace ws1"
    and r2: "optQuote r1 = ws1 @ dropWhile isSpace (optQuote r1)" by blast
  from m d9 obtain rest where r3: "dropWhile isSpace (optQuote r1) = CHR '':'' # rest"
    and pre: "prefix ''AWS::Serverless'' (optQuote (dropWhile isSpace rest))"
    by (auto simp: markerAt_def split: list.splits)
  from spaces_split [of rest] obtain ws2 where ws2: "list_all isSpace ws2"
    and r4: "rest = ws2 @ dropWhile isSpace rest" by blast
  from optQuote_split [of "dropWhile isSpace rest"] obtain q2 where q2: "q2 = [] \<or> q2 = [CHR 0x22]"
    and r5: "dropWhile isSpace rest = q2 @ optQuote (dropWhile isSpace rest)" by blast
  from pre obtain post where r6: "optQuote (dropWhile isSpace rest) = ''AWS::Serverless'' @ post"
    by (auto simp: prefix_def)
  have "str = ''Transform'' @ q1 @ ws1 @ '':'' @ ws2 @ q2 @ ''AWS::Serverless'' @ post"
  proof -
    have "rest = ws2 @ q2 @ ''AWS::Serverless'' @ post"
      using r4 r5 r6 by metis
    then have "optQuote r1 = ws1 @ '':'' @ ws2 @ q2 @ ''AWS::Serverless'' @ post"
      using r2 r3 by simp
    then have "r1 = q1 @ ws1 @ '':'' @ ws2 @ q2 @ ''AWS::Serverless'' @ post"
      using r1 by metis
    with str show ?thesis by metis
  qed
  with q1 ws1 ws2 q2 show "\<exists>q1 ws1 ws2 q2 post.
        str = ''Transform'' @ q1 @ ws1 @ '':'' @ ws2 @ q2 @ ''AWS::Serverless'' @ post
        \<and> (q1 = [] \<or> q1 = [CHR 0x22]) \<and> list_all isSpace ws1
        \<and> list_all isSpace ws2 \<and> (q2 = [] \<or> q2 = [CHR 0x22])" by blast
next
  assume "\<exists>q1 ws1 ws2 q2 post.
        str = ''Transform'' @ q1 @ ws1 @ '':'' @ ws2 @ q2 @ ''AWS::Serverless'' @ post
        \<and> (q1 = [] \<or> q1 = [CHR 0x22]) \<and> list_all isSpace ws1
        \<and> list_all isSpace ws2 \<and> (q2 = [] \<or> q2 = [CHR 0x22])"
  then obtain q1 ws1 ws2 q2 post where
    str: "str = ''Transform'' @ q1 @ ws1 @ '':'' @ ws2 @ q2 @ ''AWS::Serverless'' @ post"
    and q1: "q1 = [] \<or> q1 = [CHR 0x22]" and ws1: "list_all isSpace ws1"
    and ws2: "list_all isSpace ws2" and q2: "q2 = [] \<or> q2 = [CHR 0x22]" by blast
  let ?tail = "ws2 @ q2 @ ''AWS::Serverless'' @ post"
  have p: "prefix ''Transform'' str" unfolding str by simp
  have d9: "drop 9 str = q1 @ ws1 @ CHR '':'' # ?tail" unfolding str by simp
  have o1: "optQuote (drop 9 str) = ws1 @ CHR '':'' # ?tail"
    unfolding d9 using q1 ws1 by (auto simp: optQuote_quoted optQuote_spaces_colon)
  have c: "dropWhile isSpace (optQuote (drop 9 str)) = CHR '':'' # ?tail"
    unfolding o1 using ws1 by (rule dropWhile_spaces) (simp add: isSpace_def)
  have q2tail: "dropWhile isSpace ?tail = q2 @ ''AWS::Serverless'' @ post"
    using q2
  proof
    assume "q2 = []"
    then show ?thesis
      using dropWhile_spaces [OF ws2, of "CHR ''A''" "''WS::Serverless'' @ post"] by (simp add: isSpace_def)
  next
    assume "q2 = [CHR 0x22]"
    then show ?thesis
      using dropWhile_spaces [OF ws2, of "CHR 0x22" "''AWS::Serverless'' @ post"] by (simp add: isSpace_def)
  qed
  have "optQuote (dropWhile isSpace ?tail) = ''AWS::Serverless'' @ post"
    unfolding q2tail using q2 by (auto simp: optQuote_def)
  then have "prefix ''AWS::Serverless'' (optQuote (dropWhile isSpace ?tail))" by simp
  with p c show "markerAt str" by (simp add: markerAt_def)
qed

lemma transformMarker_iff: "transformMarker str \<longleftrightarrow> (\<exists>pre rest. str = pre @ rest \<and> markerAt rest)"
proof (induction str)
  case Nil
  then show ?case by (simp add: markerAt_def)
next
  case (Cons c cs)
  have "(\<exists>pre rest. c # cs = pre @ rest \<and> markerAt rest)
          \<longleftrightarrow> markerAt (c # cs) \<or> (\<exists>pre rest. cs = pre @ rest \<and> markerAt rest)"
  proof
    assume "\<exists>pre rest. c # cs = pre @ rest \<and> markerAt rest"
    then obtain pre rest where eq: "c # cs = pre @ rest" and m: "markerAt rest" by blast
    show "markerAt (c # cs) \<or> (\<exists>pre rest. cs = pre @ rest \<and> markerAt rest)"
    proof (cases pre)
      case Nil
      with eq m show ?thesis by simp
    next
      case (Cons d pre')
      with eq have "cs = pre' @ rest" by simp
      with m show ?thesis by blast
    qed
  next
    assume "markerAt (c # cs) \<or> (\<exists>pre rest. cs = pre @ rest \<and> markerAt rest)"
    then show "\<exists>pre rest. c # cs = pre @ rest \<and> markerAt rest"
    proof
      assume "markerAt (c # cs)"
      then have "c # cs = [] @ (c # cs) \<and> markerAt (c # cs)" by simp
      then show ?thesis by blast
    next
      assume "\<exists>pre rest. cs = pre @ rest \<and> markerAt rest"
      then obtain pre rest where "cs = pre @ rest" "markerAt rest" by blast
      then have "c # cs = (c # pre) @ rest \<and> markerAt rest" by simp
      then show ?thesis by blast
    qed
  qed
  with Cons.IH show ?case by simp
qed

lemma generateChangeSetName_example:
  "generateChangeSetName 1700000000000 = ''cf-utils-cloudformation-upsert-stack-1700000000''"
  by (simp add: generateChangeSetName_def toInt32_def showInt_def showNat.simps)

text \<open>From 19 January 2038 on, \<open>| 0\<close> makes the number of seconds negative.\<close>

lemma generateChangeSetName_wraps:
  "generateChangeSetName 2200000000000 = ''cf-utils-cloudformation-upsert-stack--2094967296''"
  by (simp add: generateChangeSetName_def toInt32_def showInt_def showNat.simps)

lemma transformMarker_examples:
  "transformMarker ''Transform: AWS::Serverless-2016-10-31''"
  "transformMarker (''{'' @ [CHR 0x22] @ ''Transform'' @ [CHR 0x22] @ '' : '' @ [CHR 0x22] @ ''AWS::Serverless-2016-10-31'' @ [CHR 0x22] @ ''}'')"
  "\<not> transformMarker ''Transform: AWS::Include''"
  "\<not> transformMarker ''Resources: {}''"
  by (simp_all add: markerAt_def optQuote_def isSpace_def)

subsection \<open>Traces of the functions\<close>













lemma pollStack_Suc_Inl:
  "sendDescribeStacks P (StackName ps) s = (Inl err, s1) \<Longrightarrow>
   pollStack P (Suc n) ps s =
     (if includes_str (message err) ''does not exist''
      then (Return None, emit (LogInfo (Msg ''Stack deleted or never existed.'')) s1)
      else (Throw err, s1))"
  by simp

lemma pollStack_Suc_Inr:
  "sendDescribeStacks P (StackName ps) s = (Inr data, s1) \<Longrightarrow> Stacks data = stk # rest \<Longrightarrow>
   pollStack P (Suc n) ps s =
     (if stackSucceeded (StackStatus stk)
      then (Return (Some data), emit (LogInfo (Msg ''Stack operation completed'')) s1)
      else if stackFailed (StackStatus stk)
      then (Throw (Error ''Stack operation failed''), emit (LogWarn (StackDetails data)) s1)
      else pollStack P n ps
             (emit (Sleep POLL_TIMEOUT)
               (emit (LogInfo (Msg (''Waiting for stack operation to complete. This may take some time - ''
                                     @ StackStatus stk))) s1)))"
  by (simp add: stackSucceeded_def stackFailed_def)

lemma pollStack_Suc_Nil:
  "sendDescribeStacks P (StackName ps) s = (Inr data, s1) \<Longrightarrow> Stacks data = [] \<Longrightarrow>
   pollStack P (Suc n) ps s = (Throw (TypeError ''StackStatus''), s1)"
  by simp


















lemma afterPrompt_prepend: "list_all isAutomatic A \<Longrightarrow> afterPrompt (A @ X) = afterPrompt X"
  by (induction A) (auto simp: afterPrompt_def isAutomatic_def isPrompt_def split: event.splits)


lemma previewDeleted_prepend: "list_all isAutomatic A \<Longrightarrow> previewDeleted nm (A @ X) = previewDeleted nm X"
  by (simp add: previewDeleted_def afterPrompt_prepend)


























text \<open>
  Fuel only bounds the wait: a poll that has ended (returned or thrown) ends the same
  way, in the same state, with any more fuel.
\<close>

lemma pollStack_fuel:
  "pollStack P n ps s = (r, s') \<Longrightarrow> r \<noteq> Pending \<Longrightarrow> pollStack P (n + k) ps s = (r, s')"
proof (induction n arbitrary: s)
  case 0
  then show ?case by simp
next
  case (Suc n)
  obtain d s1 where d: "sendDescribeStacks P (StackName ps) s = (d, s1)"
    by (cases "sendDescribeStacks P (StackName ps) s")
  show ?case
  proof (cases d)
    case (Inl err)
    with d Suc.prems show ?thesis by (simp add: pollStack_Suc_Inl)
  next
    case (Inr data)
    show ?thesis
    proof (cases "Stacks data")
      case Nil
      with d Inr Suc.prems show ?thesis by (simp add: pollStack_Suc_Nil)
    next
      case (Cons stk rest)
      note step = pollStack_Suc_Inr [OF d [unfolded Inr] Cons]
      show ?thesis
      proof (cases "stackSucceeded (StackStatus stk) \<or> stackFailed (StackStatus stk)")
        case True
        with Suc.prems step [of n] step [of "n + k"] show ?thesis by auto
      next
        case False
        with Suc.prems step [of n] step [of "n + k"] Suc.IH show ?thesis by simp
      qed
    qed
  qed
qed

lemma pollChangeSet_fuel:
  "pollChangeSet P n ps s = (r, s') \<Longrightarrow> r \<noteq> Pending \<Longrightarrow> pollChangeSet P (n + k) ps s = (r, s')"
proof (induction n arbitrary: s)
  case 0
  then show ?case by simp
next
  case (Suc n)
  obtain d s1 where d: "sendDescribeChangeSet P (ChangeSetName ps) (StackName ps) s = (d, s1)"
    by (cases "sendDescribeChangeSet P (ChangeSetName ps) (StackName ps) s")
  show ?case
  proof (cases d)
    case (Inl err)
    with d Suc.prems show ?thesis by (simp split: if_splits)
  next
    case (Inr cs)
    show ?thesis
    proof (cases "Status cs = ''CREATE_COMPLETE'' \<or> Status cs \<in> set [''UPDATE_COMPLETE'', ''DELETE_COMPLETE'']
                    \<or> Status cs = ''FAILED''")
      case True
      with d Inr Suc.prems show ?thesis by (auto split: option.splits if_splits)
    next
      case False
      with d Inr Suc.prems Suc.IH show ?thesis by simp
    qed
  qed
qed

subsection \<open>The stack poller\<close>

text \<open>
  C3 (as amended). When the describe of \<open>pollStack\<close> answers with a stack, the status of
  \<open>Stacks[0]\<close> decides: on \<open>CREATE_COMPLETE\<close> or \<open>UPDATE_COMPLETE\<close> the poll returns
  the answer; on \<open>ROLLBACK_COMPLETE\<close>, \<open>UPDATE_ROLLBACK_COMPLETE\<close>, \<open>CREATE_FAILED\<close>,
  \<open>UPDATE_FAILED\<close> or \<open>DELETE_FAILED\<close> it writes the whole answer to the warning log and
  throws an \<open>Error\<close> that has the message \<open>Stack operation failed\<close> and nothing else;
  on every other status it logs, waits \<open>POLL_TIMEOUT\<close> and polls again.
\<close>

theorem pollStack_classification:
  assumes "describeStacks P (StackName ps) (world s) = (Inr data, w')"
      and "Stacks data = stk # rest"
  shows "pollStack P (Suc n) ps s =
     (let s1 = \<lparr>world = w', trace = trace s @ [Sent (DescribeStacksCommand (StackName ps)) None]\<rparr> in
      if StackStatus stk = ''CREATE_COMPLETE'' \<or> StackStatus stk = ''UPDATE_COMPLETE''
      then (Return (Some data), emit (LogInfo (Msg ''Stack operation completed'')) s1)
      else if StackStatus stk = ''ROLLBACK_COMPLETE'' \<or> StackStatus stk = ''UPDATE_ROLLBACK_COMPLETE''
              \<or> StackStatus stk = ''CREATE_FAILED'' \<or> StackStatus stk = ''UPDATE_FAILED''
              \<or> StackStatus stk = ''DELETE_FAILED''
      then (Throw \<lparr>ename = ''Error'', message = ''Stack operation failed''\<rparr>,
            emit (LogWarn (StackDetails data)) s1)
      else pollStack P n ps
             (emit (Sleep 5000)
               (emit (LogInfo (Msg (''Waiting for stack operation to complete. This may take some time - ''
                                     @ StackStatus stk))) s1)))"
  using assms
  by (simp add: sendDescribeStacks_def failure_def Error_def POLL_TIMEOUT_def Let_def)

text \<open>
  A stack seen in \<open>DELETE_COMPLETE\<close> (not one of the listed statuses) and then in
  \<open>UPDATE_COMPLETE\<close>: two describes, and the second answer is returned.
\<close>

theorem pollStack_classification_witness:
  "pollStack agreeable (Suc 1) (stackParams ''S'')
       (start [Inr (stackWith ''S'' ''DELETE_COMPLETE'' None), Inr (stackWith ''S'' ''UPDATE_COMPLETE'' None)] [])
     = (Return (Some (stackWith ''S'' ''UPDATE_COMPLETE'' None)),
        \<lparr>world = \<lparr>stackAnswers = [], changeSetAnswers = []\<rparr>,
         trace = [Sent (DescribeStacksCommand ''S'') None,
                  LogInfo (Msg ''Waiting for stack operation to complete. This may take some time - DELETE_COMPLETE''),
                  Sleep 5000,
                  Sent (DescribeStacksCommand ''S'') None,
                  LogInfo (Msg ''Stack operation completed'')]\<rparr>)"
  using pollStack_classification [of agreeable "stackParams ''S''"
      "start [Inr (stackWith ''S'' ''DELETE_COMPLETE'' None), Inr (stackWith ''S'' ''UPDATE_COMPLETE'' None)] []"
      "stackWith ''S'' ''DELETE_COMPLETE'' None"
      "\<lparr>stackAnswers = [Inr (stackWith ''S'' ''UPDATE_COMPLETE'' None)], changeSetAnswers = []\<rparr>"
      "\<lparr>Stack_Name = ''S'', StackStatus = ''DELETE_COMPLETE'', Outputs = None\<rparr>" "[]" 1]
  by (simp add: mock_defs)

text \<open>
  Two stacks in \<open>CREATE_FAILED\<close> with different details: the error thrown is the same
  value, so it does not carry the detail.
\<close>

theorem pollStack_error_counterexample:
  "fst (pollStack agreeable 1 (stackParams ''S'') (start [Inr (stackWith ''S'' ''CREATE_FAILED'' None)] []))
     = Throw \<lparr>ename = ''Error'', message = ''Stack operation failed''\<rparr>
   \<and> fst (pollStack agreeable 1 (stackParams ''S'')
            (start [Inr (stackWith ''S'' ''CREATE_FAILED'' (Some [\<lparr>OutputKey = ''K'', OutputValue = ''V''\<rparr>]))] []))
     = Throw \<lparr>ename = ''Error'', message = ''Stack operation failed''\<rparr>
   \<and> stackWith ''S'' ''CREATE_FAILED'' None
       \<noteq> stackWith ''S'' ''CREATE_FAILED'' (Some [\<lparr>OutputKey = ''K'', OutputValue = ''V''\<rparr>])"
  by (simp add: mock_defs)

subsection \<open>The change-set poller\<close>

text \<open>
  C2 (as amended). When the describe of \<open>pollChangeSet\<close> answers with a change set, its
  \<open>Status\<close> decides. On \<open>FAILED\<close> with a \<open>StatusReason\<close> that contains
  \<open>No updates are to be performed\<close> or \<open>didn't contain changes\<close> the poll returns
  \<open>undefined\<close>; on \<open>FAILED\<close> with any other reason it writes the change set to the
  warning log and throws an \<open>Error\<close> that has the message \<open>Changeset creation failed\<close>
  and nothing else. On \<open>CREATE_COMPLETE\<close>, \<open>UPDATE_COMPLETE\<close> and \<open>DELETE_COMPLETE\<close>
  it returns the change set. On every other status it logs, waits \<open>POLL_TIMEOUT\<close> and
  polls again. (A \<open>FAILED\<close> change set with no \<open>StatusReason\<close> at all makes
  \<open>cs.StatusReason.indexOf\<close> throw a \<open>TypeError\<close>.)
\<close>

theorem pollChangeSet_classification:
  assumes "describeChangeSet P (ChangeSetName ps) (StackName ps) (world s) = (Inr cs, w')"
  shows "pollChangeSet P (Suc n) ps s =
     (let s1 = \<lparr>world = w',
                trace = trace s @ [Sent (DescribeChangeSetCommand (ChangeSetName ps) (StackName ps)) None]\<rparr> in
      if Status cs = ''FAILED''
      then (case StatusReason cs of
              Some reason \<Rightarrow>
                if includes_str reason ''No updates are to be performed''
                   \<or> includes_str reason ''didn't contain changes''
                then (Return None, emit (LogInfo (Msg ''No updates are to be performed'')) s1)
                else (Throw \<lparr>ename = ''Error'', message = ''Changeset creation failed''\<rparr>,
                      emit (LogWarn (ChangeSetLog cs)) s1)
            | None \<Rightarrow> (Throw (TypeError ''indexOf''), s1))
      else if Status cs = ''CREATE_COMPLETE''
      then (Return (Some cs), emit (LogInfo (Msg ''Change set created'')) s1)
      else if Status cs = ''UPDATE_COMPLETE'' \<or> Status cs = ''DELETE_COMPLETE''
      then (Return (Some cs), s1)
      else pollChangeSet P n ps
             (emit (Sleep 5000)
               (emit (LogInfo (Msg (''Waiting for change set to be created - '' @ Status cs))) s1)))"
  using assms
  by (simp add: sendDescribeChangeSet_def failure_def Error_def POLL_TIMEOUT_def Let_def
           split: option.split)

text \<open>The second phrasing of the no-op reason, as CloudFormation words it.\<close>

theorem pollChangeSet_classification_witness:
  "pollChangeSet agreeable (Suc 0) (changeSetParams ''S'' ''cs-1'')
       (start [] [Inr (changeSetWith ''cs-1'' ''S'' ''FAILED''
                        (Some ''The submitted information didn't contain changes. Submit different information to create a change set.''))])
     = (Return None,
        \<lparr>world = \<lparr>stackAnswers = [], changeSetAnswers = []\<rparr>,
         trace = [Sent (DescribeChangeSetCommand (Some ''cs-1'') ''S'') None,
                  LogInfo (Msg ''No updates are to be performed'')]\<rparr>)"
  using pollChangeSet_classification [of agreeable "changeSetParams ''S'' ''cs-1''"
      "start [] [Inr (changeSetWith ''cs-1'' ''S'' ''FAILED''
                        (Some ''The submitted information didn't contain changes. Submit different information to create a change set.''))]"
      "changeSetWith ''cs-1'' ''S'' ''FAILED''
                        (Some ''The submitted information didn't contain changes. Submit different information to create a change set.'')"
      "\<lparr>stackAnswers = [], changeSetAnswers = []\<rparr>" 0]
  by (simp add: mock_defs)

text \<open>
  Two failed change sets with different details: the error thrown is the same value, so
  it does not carry the detail.
\<close>

theorem pollChangeSet_error_counterexample:
  "fst (pollChangeSet agreeable 1 (changeSetParams ''S'' ''cs-1'')
          (start [] [Inr (changeSetWith ''cs-1'' ''S'' ''FAILED'' (Some ''Template error''))]))
     = Throw \<lparr>ename = ''Error'', message = ''Changeset creation failed''\<rparr>
   \<and> fst (pollChangeSet agreeable 1 (changeSetParams ''S'' ''cs-1'')
          (start [] [Inr (changeSetWith ''cs-1'' ''S'' ''FAILED'' (Some ''Access denied''))]))
     = Throw \<lparr>ename = ''Error'', message = ''Changeset creation failed''\<rparr>
   \<and> changeSetWith ''cs-1'' ''S'' ''FAILED'' (Some ''Template error'')
       \<noteq> changeSetWith ''cs-1'' ''S'' ''FAILED'' (Some ''Access denied'')"
  by (simp add: mock_defs)

subsection \<open>A resource that is not found\<close>

text \<open>
  C9 (as amended). When the describe of \<open>pollStack\<close> or of \<open>pollChangeSet\<close> fails
  with an error whose message contains \<open>does not exist\<close>, the poll returns \<open>undefined\<close>,
  whatever the parameters and whoever the caller: the pollers have no argument that says
  whether not-found is expected. Any other error of the describe is thrown on.
\<close>

theorem poll_notFound:
  "(describeStacks P (StackName ps) (world s) = (Inl err, w') \<longrightarrow>
      pollStack P (Suc n) ps s =
        (if includes_str (message err) ''does not exist''
         then (Return None,
               \<lparr>world = w',
                trace = trace s @ [Sent (DescribeStacksCommand (StackName ps)) (Some err),
                                   LogInfo (Msg ''Stack deleted or never existed.'')]\<rparr>)
         else (Throw err,
               \<lparr>world = w', trace = trace s @ [Sent (DescribeStacksCommand (StackName ps)) (Some err)]\<rparr>)))
   \<and> (describeChangeSet P (ChangeSetName ps) (StackName ps) (world s) = (Inl err, w') \<longrightarrow>
      pollChangeSet P (Suc n) ps s =
        (if includes_str (message err) ''does not exist''
         then (Return None,
               \<lparr>world = w',
                trace = trace s @ [Sent (DescribeChangeSetCommand (ChangeSetName ps) (StackName ps)) (Some err),
                                   LogInfo (Msg ''Change set deleted or never existed.'')]\<rparr>)
         else (Throw err,
               \<lparr>world = w',
                trace = trace s @ [Sent (DescribeChangeSetCommand (ChangeSetName ps) (StackName ps)) (Some err)]\<rparr>)))"
  by (simp add: sendDescribeStacks_def sendDescribeChangeSet_def failure_def emit_def)

text \<open>A stack that is not found, and a change-set describe that fails for another reason.\<close>

theorem poll_notFound_witness:
  "pollStack agreeable (Suc 0) (stackParams ''S'') (start [] [])
     = (Return None,
        \<lparr>world = \<lparr>stackAnswers = [], changeSetAnswers = []\<rparr>,
         trace = [Sent (DescribeStacksCommand ''S'') (Some (Error ''Stack with id S does not exist'')),
                  LogInfo (Msg ''Stack deleted or never existed.'')]\<rparr>)
   \<and> pollChangeSet agreeable (Suc 0) (changeSetParams ''S'' ''cs-1'')
        (start [] [Inl (Error ''Rate exceeded'')])
     = (Throw (Error ''Rate exceeded''),
        \<lparr>world = \<lparr>stackAnswers = [], changeSetAnswers = []\<rparr>,
         trace = [Sent (DescribeChangeSetCommand (Some ''cs-1'') ''S'') (Some (Error ''Rate exceeded''))]\<rparr>)"
  using poll_notFound [of agreeable "stackParams ''S''" "start [] []"
          "Error ''Stack with id S does not exist''" "\<lparr>stackAnswers = [], changeSetAnswers = []\<rparr>" 0]
        poll_notFound [of agreeable "changeSetParams ''S'' ''cs-1''" "start [] [Inl (Error ''Rate exceeded'')]"
          "Error ''Rate exceeded''" "\<lparr>stackAnswers = [], changeSetAnswers = []\<rparr>" 0]
  by (simp add: mock_defs)

text \<open>
  \<open>createStack\<close> and \<open>updateStack\<close> wait for a stack that should exist. The request
  is accepted, the describe that follows answers that the stack does not exist, and the
  call returns \<open>undefined\<close> instead of throwing.
\<close>

theorem createStack_notFound_counterexample:
  "fst (createStack agreeable 1 (stackParams ''S'') (start [] [])) = Return None
   \<and> fst (updateStack agreeable 1 (stackParams ''S'') (start [] [])) = Return None"
  by (simp add: mock_defs createStack_def updateStack_def)

subsection \<open>Direct update and direct create\<close>





subsection \<open>Deleting a stack\<close>

text \<open>
  C4. When the first describe of \<open>deleteStack\<close> fails with an error whose message
  contains \<open>does not exist\<close> (the stack is gone), the call returns \<open>undefined\<close>, having
  sent that one describe and written one log line: it empties no bucket, sends no
  DeleteStack and does not poll. This holds in every state, so also in the state a first
  \<open>deleteStack\<close> has left behind.
\<close>

theorem deleteStack_already_deleted:
  assumes "describeStacks P nm (world s) = (Inl err, w')"
      and "includes_str (message err) ''does not exist''"
  shows "deleteStack P n nm s =
     (Return None,
      \<lparr>world = w',
       trace = trace s @ [Sent (DescribeStacksCommand nm) (Some err),
                          LogInfo (Msg ''Stack already deleted or never existed.'')]\<rparr>)"
  using assms by (simp add: deleteStack_def sendDescribeStacks_def failure_def emit_def)

text \<open>
  \<open>deleteStack\<close> twice: the first call deletes the stack, the second, run in the state
  the first has left, adds one describe and one log line.
\<close>

theorem deleteStack_already_deleted_witness:
  "fst (deleteStack agreeable 3 ''S''
          (start [Inr (stackWith ''S'' ''CREATE_COMPLETE'' None), Inr (stackWith ''S'' ''DELETE_IN_PROGRESS'' None)] []))
     = Return None
   \<and> fst (deleteStack agreeable 3 ''S''
            (snd (deleteStack agreeable 3 ''S''
               (start [Inr (stackWith ''S'' ''CREATE_COMPLETE'' None), Inr (stackWith ''S'' ''DELETE_IN_PROGRESS'' None)] []))))
     = Return None
   \<and> issued
        (snd (deleteStack agreeable 3 ''S''
               (start [Inr (stackWith ''S'' ''CREATE_COMPLETE'' None), Inr (stackWith ''S'' ''DELETE_IN_PROGRESS'' None)] [])))
        (deleteStack agreeable 3 ''S''
            (snd (deleteStack agreeable 3 ''S''
               (start [Inr (stackWith ''S'' ''CREATE_COMPLETE'' None), Inr (stackWith ''S'' ''DELETE_IN_PROGRESS'' None)] []))))
     = [Sent (DescribeStacksCommand ''S'') (Some (Error ''Stack with id S does not exist'')),
        LogInfo (Msg ''Stack already deleted or never existed.'')]"
proof -
  let ?s0 = "start [Inr (stackWith ''S'' ''CREATE_COMPLETE'' None), Inr (stackWith ''S'' ''DELETE_IN_PROGRESS'' None)] []"
  have first: "deleteStack agreeable 3 ''S'' ?s0 =
     (Return None,
      \<lparr>world = \<lparr>stackAnswers = [], changeSetAnswers = []\<rparr>,
       trace = [Sent (DescribeStacksCommand ''S'') None,
                Sent (DeleteStackCommand (stackParams ''S'')) None,
                Sent (DescribeStacksCommand ''S'') None,
                LogInfo (Msg ''Waiting for stack operation to complete. This may take some time - DELETE_IN_PROGRESS''),
                Sleep 5000,
                Sent (DescribeStacksCommand ''S'') (Some (Error ''Stack with id S does not exist'')),
                LogInfo (Msg ''Stack deleted or never existed.'')]\<rparr>)"
    by (simp add: deleteStack_def numeral_3_eq_3 mock_defs)
  show ?thesis
    unfolding first
    using deleteStack_already_deleted [of agreeable "''S''"
        "snd (deleteStack agreeable 3 ''S'' ?s0)" "Error ''Stack with id S does not exist''"
        "\<lparr>stackAnswers = [], changeSetAnswers = []\<rparr>" 3]
    unfolding first
    by (simp add: issued_def mock_defs)
qed



subsection \<open>Upserting a stack\<close>








end
